theory Spec2Isabelle
  imports Complex_Main "HOL-Library.AList"
begin

section \<open>Values of the numeric and tabular libraries\<close>

text \<open>
  The page is one Python module, \<^verbatim>\<open>streamlit_investor_app.py\<close>. It calls numpy
  (random draws, cumulative sums, array arithmetic), pandas (a business-day index and
  two tables), plotly (three figures) and streamlit (the rendering host). The module's own
  functions are \<^verbatim>\<open>generate_performance_data\<close>, \<^verbatim>\<open>create_performance_chart\<close>,
  \<^verbatim>\<open>create_drawdown_chart\<close>, \<^verbatim>\<open>create_risk_radar_chart\<close> and \<^verbatim>\<open>main\<close>.

  Array elements are modelled as real numbers together with the three non-finite results
  that numpy's division produces instead of raising. Rounding of binary floating point is
  not modelled.
\<close>

datatype npfloat = Fin real | PInf | NInf | NaN

datatype error = KeyError string | IndexError | ValueError | TypeError

text \<open>Array division by a scalar: numpy warns and yields \<open>nan\<close> or \<open>\<plusminus>inf\<close> at a zero divisor.\<close>

definition np_div :: "real \<Rightarrow> real \<Rightarrow> npfloat" where
  "np_div x y =
     (if y \<noteq> 0 then Fin (x / y)
      else if x = 0 then NaN
      else if 0 < x then PInf else NInf)"

fun np_mul :: "npfloat \<Rightarrow> real \<Rightarrow> npfloat" where
  "np_mul (Fin x) t = Fin (x * t)"
| "np_mul PInf t = (if 0 < t then PInf else if t < 0 then NInf else NaN)"
| "np_mul NInf t = (if 0 < t then NInf else if t < 0 then PInf else NaN)"
| "np_mul NaN t = NaN"

text \<open>\<^verbatim>\<open>np.cumsum\<close>: the running sum, one output element per input element.\<close>

fun cumsum_from :: "real \<Rightarrow> real list \<Rightarrow> real list" where
  "cumsum_from acc [] = []"
| "cumsum_from acc (x # xs) = (acc + x) # cumsum_from (acc + x) xs"

definition cumsum :: "real list \<Rightarrow> real list" where
  "cumsum xs = cumsum_from 0 xs"

text \<open>
  The expression \<^verbatim>\<open>a / a[-1] * target\<close> that the generator applies to each series.
  Indexing an empty array with \<^verbatim>\<open>-1\<close> raises \<^verbatim>\<open>IndexError\<close>.
\<close>

definition rescale :: "real list \<Rightarrow> real \<Rightarrow> error + npfloat list" where
  "rescale a target =
     (if a = [] then Inl IndexError
      else Inr (map (\<lambda>x. np_mul (np_div x (last a)) target) a))"

subsection \<open>Random draws\<close>

text \<open>
  numpy's generator is a library outside this module. It enters as two parameters:
  \<open>seed\<close> gives the generator state for a seed, and \<open>gauss\<close> draws one standard normal
  deviate and advances the state. \<^verbatim>\<open>np.random.normal(loc, scale, n)\<close> draws \<open>n\<close>
  deviates in turn and returns \<open>loc + scale * z\<close> for each.
\<close>

fun normal :: "('s \<Rightarrow> real \<times> 's) \<Rightarrow> real \<Rightarrow> real \<Rightarrow> nat \<Rightarrow> 's \<Rightarrow> real list \<times> 's" where
  "normal gauss loc scale 0 s = ([], s)"
| "normal gauss loc scale (Suc n) s =
     (case gauss s of (z, s1) \<Rightarrow>
        (case normal gauss loc scale n s1 of (zs, s2) \<Rightarrow> ((loc + scale * z) # zs, s2)))"

subsection \<open>Business-day index\<close>

text \<open>
  A timestamp is the number of days since 1970-01-01. \<open>days_from_civil\<close> is the usual
  proleptic Gregorian conversion; 1970-01-01 was a Thursday, and weekdays are numbered
  from Monday = 0 as pandas does. \<^verbatim>\<open>pd.date_range(start, end, freq='B')\<close> lists the days
  from \<open>start\<close> to \<open>end\<close>, both included, that fall on Monday to Friday.
\<close>

definition days_from_civil :: "int \<Rightarrow> int \<Rightarrow> int \<Rightarrow> int" where
  "days_from_civil y m d =
     (let y' = (if m \<le> 2 then y - 1 else y);
          era = y' div 400;
          yoe = y' - era * 400;
          doy = (153 * (if 2 < m then m - 3 else m + 9) + 2) div 5 + d - 1;
          doe = yoe * 365 + yoe div 4 - yoe div 100 + doy
      in era * 146097 + doe - 719468)"

definition weekday :: "int \<Rightarrow> int" where
  "weekday t = (t + 3) mod 7"

definition is_business_day :: "int \<Rightarrow> bool" where
  "is_business_day t \<longleftrightarrow> weekday t < 5"

definition date_range_B :: "int \<times> int \<times> int \<Rightarrow> int \<times> int \<times> int \<Rightarrow> int list" where
  "date_range_B start end =
     (case start of (y1, m1, d1) \<Rightarrow> case end of (y2, m2, d2) \<Rightarrow>
        filter is_business_day [days_from_civil y1 m1 d1 .. days_from_civil y2 m2 d2])"

definition dates :: "int list" where
  "dates = take 48 (date_range_B (2025, 9, 1) (2025, 11, 11))"

subsection \<open>Tables\<close>

text \<open>
  A pandas table is a dictionary of named columns in insertion order. Building one from
  columns of different lengths raises \<^verbatim>\<open>ValueError\<close>; reading a column that is not there
  raises \<^verbatim>\<open>KeyError\<close>.
\<close>

datatype column = DateCol "int list" | NumCol "npfloat list" | StrCol "string list"

fun col_len :: "column \<Rightarrow> nat" where
  "col_len (DateCol ds) = length ds"
| "col_len (NumCol xs) = length xs"
| "col_len (StrCol ss) = length ss"

type_synonym dataframe = "(string \<times> column) list"

fun same_len :: "nat \<Rightarrow> (string \<times> column) list \<Rightarrow> bool" where
  "same_len n [] = True"
| "same_len n ((k, c) # kcs) = (col_len c = n \<and> same_len n kcs)"

definition pd_DataFrame :: "(string \<times> column) list \<Rightarrow> error + dataframe" where
  "pd_DataFrame kcs =
     (case kcs of
        [] \<Rightarrow> Inr []
      | (k, c) # rest \<Rightarrow> if same_len (col_len c) rest then Inr kcs else Inl ValueError)"

definition getitem :: "dataframe \<Rightarrow> string \<Rightarrow> error + column" where
  "getitem df key = (case map_of df key of None \<Rightarrow> Inl (KeyError key) | Some c \<Rightarrow> Inr c)"

subsection \<open>Figures\<close>

text \<open>
  A plotly trace is a kind together with its keyword arguments; a figure is a list of
  traces and a layout dictionary. \<^verbatim>\<open>update_layout\<close> sets the given layout keys in
  order. plotly's own validation of property values is outside this module and is not
  modelled.
\<close>

datatype pvalue =
    S string
  | N real
  | B bool
  | L "pvalue list"
  | D "(string \<times> pvalue) list"
  | A column

datatype trace =
    Scatter "(string \<times> pvalue) list"
  | Bar "(string \<times> pvalue) list"
  | Scatterpolar "(string \<times> pvalue) list"

record figure =
  data :: "trace list"
  layout :: "(string \<times> pvalue) list"

subsection \<open>The world a page load runs in\<close>

text \<open>
  Tables and figures are objects on a heap, addressed by position, so that passing one to
  a function passes a reference. The host's display surface is the list of elements written
  to it so far, each with the column it was written into (\<open>None\<close> for the page itself); a
  chart or table element holds the reference it was given and the object's content at that
  moment. The same list records every call of one of this module's functions, with the
  references passed to it.
\<close>

datatype obj = DataFrameObj dataframe | FigureObj figure

datatype markup = Rule | Div string "string list"

datatype element =
    Markdown markup
  | Header string
  | Subheader string
  | Columns nat
  | Write string
  | PlotlyChart nat figure
  | DataframeView nat dataframe

datatype event = Invoked string "nat list" | Emitted "nat option" element

record 's world =
  rng :: 's
  heap :: "obj list"
  container :: "nat option"
  log :: "event list"

type_synonym ('s, 'a) prog = "'s world \<Rightarrow> error + ('a \<times> 's world)"

definition ret :: "'a \<Rightarrow> ('s, 'a) prog" where
  "ret x w = Inr (x, w)"

definition pbind :: "('s, 'a) prog \<Rightarrow> ('a \<Rightarrow> ('s, 'b) prog) \<Rightarrow> ('s, 'b) prog" where
  "pbind p f w = (case p w of Inl e \<Rightarrow> Inl e | Inr (x, w') \<Rightarrow> f x w')"

definition lift :: "error + 'a \<Rightarrow> ('s, 'a) prog" where
  "lift r w = (case r of Inl e \<Rightarrow> Inl e | Inr x \<Rightarrow> Inr (x, w))"

fun block :: "('s, unit) prog list \<Rightarrow> ('s, unit) prog" where
  "block [] = ret ()"
| "block (p # ps) = pbind p (\<lambda>_. block ps)"

definition invoke :: "string \<Rightarrow> nat list \<Rightarrow> ('s, unit) prog" where
  "invoke name refs w = Inr ((), w\<lparr>log := log w @ [Invoked name refs]\<rparr>)"

definition emit :: "element \<Rightarrow> ('s, unit) prog" where
  "emit e w = Inr ((), w\<lparr>log := log w @ [Emitted (container w) e]\<rparr>)"

definition alloc :: "obj \<Rightarrow> ('s, nat) prog" where
  "alloc ob w = Inr (length (heap w), w\<lparr>heap := heap w @ [ob]\<rparr>)"

definition read_frame :: "nat \<Rightarrow> ('s, dataframe) prog" where
  "read_frame a w =
     (if a < length (heap w)
      then (case heap w ! a of DataFrameObj df \<Rightarrow> Inr (df, w) | FigureObj f \<Rightarrow> Inl TypeError)
      else Inl TypeError)"

definition read_figure :: "nat \<Rightarrow> ('s, figure) prog" where
  "read_figure a w =
     (if a < length (heap w)
      then (case heap w ! a of FigureObj f \<Rightarrow> Inr (f, w) | DataFrameObj df \<Rightarrow> Inl TypeError)
      else Inl TypeError)"

definition write_figure :: "nat \<Rightarrow> figure \<Rightarrow> ('s, unit) prog" where
  "write_figure a f w = Inr ((), w\<lparr>heap := (heap w)[a := FigureObj f]\<rparr>)"

text \<open>numpy\<close>

definition np_random_seed :: "(nat \<Rightarrow> 's) \<Rightarrow> nat \<Rightarrow> ('s, unit) prog" where
  "np_random_seed seed k w = Inr ((), w\<lparr>rng := seed k\<rparr>)"

definition np_random_normal ::
  "('s \<Rightarrow> real \<times> 's) \<Rightarrow> real \<Rightarrow> real \<Rightarrow> nat \<Rightarrow> ('s, real list) prog" where
  "np_random_normal gauss loc scale n w =
     (case normal gauss loc scale n (rng w) of (xs, s') \<Rightarrow> Inr (xs, w\<lparr>rng := s'\<rparr>))"

text \<open>pandas: \<^verbatim>\<open>data[key]\<close> on a table held by reference\<close>

definition frame_getitem :: "nat \<Rightarrow> string \<Rightarrow> ('s, column) prog" where
  "frame_getitem a key = pbind (read_frame a) (\<lambda>df. lift (getitem df key))"

text \<open>pandas: \<^verbatim>\<open>pd.DataFrame(dict)\<close> builds a new table object\<close>

definition new_frame :: "(string \<times> column) list \<Rightarrow> ('s, nat) prog" where
  "new_frame kcs = pbind (lift (pd_DataFrame kcs)) (\<lambda>df. alloc (DataFrameObj df))"

text \<open>plotly\<close>

definition go_Figure :: "trace list \<Rightarrow> ('s, nat) prog" where
  "go_Figure ts = alloc (FigureObj \<lparr>data = ts, layout = []\<rparr>)"

definition add_trace :: "nat \<Rightarrow> trace \<Rightarrow> ('s, unit) prog" where
  "add_trace fig t =
     pbind (read_figure fig) (\<lambda>f. write_figure fig (f\<lparr>data := data f @ [t]\<rparr>))"

definition update_layout :: "nat \<Rightarrow> (string \<times> pvalue) list \<Rightarrow> ('s, unit) prog" where
  "update_layout fig kwargs =
     pbind (read_figure fig)
       (\<lambda>f. write_figure fig (f\<lparr>layout := fold (\<lambda>(k, v). AList.update k v) kwargs (layout f)\<rparr>))"

text \<open>streamlit\<close>

definition st_markdown :: "markup \<Rightarrow> ('s, unit) prog" where
  "st_markdown m = emit (Markdown m)"

definition st_header :: "string \<Rightarrow> ('s, unit) prog" where
  "st_header t = emit (Header t)"

definition st_subheader :: "string \<Rightarrow> ('s, unit) prog" where
  "st_subheader t = emit (Subheader t)"

definition st_columns :: "nat \<Rightarrow> ('s, unit) prog" where
  "st_columns n = emit (Columns n)"

definition st_write :: "string \<Rightarrow> ('s, unit) prog" where
  "st_write t = emit (Write t)"

definition st_plotly_chart :: "nat \<Rightarrow> ('s, unit) prog" where
  "st_plotly_chart fig = pbind (read_figure fig) (\<lambda>f. emit (PlotlyChart fig f))"

definition st_dataframe :: "nat \<Rightarrow> ('s, unit) prog" where
  "st_dataframe a = pbind (read_frame a) (\<lambda>df. emit (DataframeView a df))"

text \<open>\<^verbatim>\<open>with col:\<close> writes the elements of its body into column \<open>col\<close>.\<close>

definition with_col :: "nat \<Rightarrow> ('s, unit) prog list \<Rightarrow> ('s, unit) prog" where
  "with_col col body w =
     (case block body (w\<lparr>container := Some col\<rparr>) of
        Inl e \<Rightarrow> Inl e
      | Inr (u, w') \<Rightarrow> Inr (u, w'\<lparr>container := container w\<rparr>))"

section \<open>The module's functions\<close>

text \<open>
  String literals are kept as written, as UTF-8 bytes. Markup blocks passed to
  \<^verbatim>\<open>st.markdown\<close> are abbreviated: \<open>Div c ts\<close> stands for the block whose outer
  \<^verbatim>\<open>div\<close> has class \<open>c\<close> and whose text items, in order, are \<open>ts\<close>; tags, inline
  styles and pictographs are left out, and \<open>Rule\<close> is the literal \<^verbatim>\<open>---\<close>. Headings lose
  their pictographs as well; the check mark that the advantages loop puts before each line
  is kept. The options passed to the host (\<^verbatim>\<open>unsafe_allow_html\<close>,
  \<^verbatim>\<open>use_container_width\<close>, \<^verbatim>\<open>hide_index\<close>) do not change which elements are written and
  are left out. The two calls the module makes when it is loaded, \<^verbatim>\<open>st.set_page_config\<close>
  and the style sheet, happen before \<^verbatim>\<open>main\<close> and are not part of it.
\<close>

definition rupee :: string where
  "rupee = [CHR 0xE2, CHR 0x82, CHR 0xB9]"

definition check_mark :: string where
  "check_mark = [CHR 0xE2, CHR 0x9C, CHR 0x85]"

subsection \<open>\<^verbatim>\<open>generate_performance_data\<close>\<close>

definition generate_performance_data ::
  "(nat \<Rightarrow> 's) \<Rightarrow> ('s \<Rightarrow> real \<times> 's) \<Rightarrow> ('s, nat) prog" where
  "generate_performance_data seed gauss =
     pbind (invoke ''generate_performance_data'' []) (\<lambda>_.
     pbind (np_random_seed seed 42) (\<lambda>_.
     pbind (np_random_normal gauss 2593 1500 48) (\<lambda>draws1.
     pbind (lift (rescale (cumsum draws1) 124477)) (\<lambda>our_algorithm.
     pbind (np_random_normal gauss 390 600 48) (\<lambda>draws2.
     pbind (lift (rescale (cumsum draws2) 18750)) (\<lambda>bank_nifty.
     pbind (np_random_normal gauss 260 400 48) (\<lambda>draws3.
     pbind (lift (rescale (cumsum draws3) 12500)) (\<lambda>nifty_index.
     pbind (np_random_normal gauss 173 250 48) (\<lambda>draws4.
     pbind (lift (rescale (cumsum draws4) 8333)) (\<lambda>mutual_funds.
     new_frame
       [(''Date'', DateCol dates),
        (''Our_Algorithm'', NumCol our_algorithm),
        (''Bank_Nifty'', NumCol bank_nifty),
        (''Nifty_Index'', NumCol nifty_index),
        (''Mutual_Funds'', NumCol mutual_funds)]))))))))))"

subsection \<open>\<^verbatim>\<open>create_performance_chart\<close>\<close>

definition create_performance_chart :: "nat \<Rightarrow> ('s, nat) prog" where
  "create_performance_chart data_ref =
     pbind (invoke ''create_performance_chart'' [data_ref]) (\<lambda>_.
     pbind (go_Figure []) (\<lambda>fig.
     pbind (frame_getitem data_ref ''Date'') (\<lambda>x1.
     pbind (frame_getitem data_ref ''Our_Algorithm'') (\<lambda>y1.
     pbind (add_trace fig (Scatter
              [(''x'', A x1), (''y'', A y1),
               (''mode'', S ''lines+markers''),
               (''name'', S ''Our Algorithm''),
               (''line'', D [(''color'', S ''#38a169''), (''width'', N 4)]),
               (''fill'', S ''tonexty''),
               (''fillcolor'', S ''rgba(56, 161, 105, 0.1)'')])) (\<lambda>_.
     pbind (frame_getitem data_ref ''Date'') (\<lambda>x2.
     pbind (frame_getitem data_ref ''Bank_Nifty'') (\<lambda>y2.
     pbind (add_trace fig (Scatter
              [(''x'', A x2), (''y'', A y2),
               (''mode'', S ''lines''),
               (''name'', S ''Bank Nifty''),
               (''line'', D [(''color'', S ''#ed8936''), (''width'', N 2), (''dash'', S ''dash'')])])) (\<lambda>_.
     pbind (frame_getitem data_ref ''Date'') (\<lambda>x3.
     pbind (frame_getitem data_ref ''Nifty_Index'') (\<lambda>y3.
     pbind (add_trace fig (Scatter
              [(''x'', A x3), (''y'', A y3),
               (''mode'', S ''lines''),
               (''name'', S ''Nifty Index''),
               (''line'', D [(''color'', S ''#3182ce''), (''width'', N 2), (''dash'', S ''dash'')])])) (\<lambda>_.
     pbind (frame_getitem data_ref ''Date'') (\<lambda>x4.
     pbind (frame_getitem data_ref ''Mutual_Funds'') (\<lambda>y4.
     pbind (add_trace fig (Scatter
              [(''x'', A x4), (''y'', A y4),
               (''mode'', S ''lines''),
               (''name'', S ''Mutual Funds''),
               (''line'', D [(''color'', S ''#9f7aea''), (''width'', N 2), (''dash'', S ''dash'')])])) (\<lambda>_.
     pbind (update_layout fig
              [(''title'', S ''Cumulative Performance Comparison (Sep - Nov 2025)''),
               (''xaxis_title'', S ''Date''),
               (''yaxis_title'', S (''Cumulative Returns ('' @ rupee @ '')'')),
               (''hovermode'', S ''x unified''),
               (''template'', S ''plotly_white''),
               (''height'', N 500)]) (\<lambda>_.
     ret fig)))))))))))))))"

subsection \<open>\<^verbatim>\<open>create_drawdown_chart\<close>\<close>

definition strategies :: "string list" where
  "strategies = [''Our Algorithm'', ''Bank Nifty'', ''Nifty Index'', ''Mutual Funds'']"

definition drawdowns :: "real list" where
  "drawdowns = [19.6, 12.3, 8.5, 6.2]"

definition colors :: "string list" where
  "colors = [''#38a169'', ''#ed8936'', ''#3182ce'', ''#9f7aea'']"

definition create_drawdown_chart :: "('s, nat) prog" where
  "create_drawdown_chart =
     pbind (invoke ''create_drawdown_chart'' []) (\<lambda>_.
     pbind (go_Figure
              [Bar [(''x'', L (map S strategies)),
                    (''y'', L (map N drawdowns)),
                    (''marker_color'', L (map S colors))]]) (\<lambda>fig.
     pbind (update_layout fig
              [(''title'', S ''Maximum Drawdown Comparison''),
               (''xaxis_title'', S ''Strategy''),
               (''yaxis_title'', S ''Drawdown (%)''),
               (''template'', S ''plotly_white''),
               (''height'', N 400)]) (\<lambda>_.
     ret fig)))"

subsection \<open>\<^verbatim>\<open>create_risk_radar_chart\<close>\<close>

definition categories :: "string list" where
  "categories =
     [''Consistency'', ''Drawdown Control'', ''Win Rate'', ''Sharpe Ratio'', ''Adaptability'']"

definition values_list :: "real list" where
  "values_list = [85, 90, 75, 85, 95]"

definition create_risk_radar_chart :: "('s, nat) prog" where
  "create_risk_radar_chart =
     pbind (invoke ''create_risk_radar_chart'' []) (\<lambda>_.
     pbind (go_Figure []) (\<lambda>fig.
     pbind (add_trace fig (Scatterpolar
              [(''r'', L (map N values_list)),
               (''theta'', L (map S categories)),
               (''fill'', S ''toself''),
               (''name'', S ''Our Algorithm''),
               (''line_color'', S ''#38a169''),
               (''fillcolor'', S ''rgba(56, 161, 105, 0.3)'')])) (\<lambda>_.
     pbind (update_layout fig
              [(''polar'', D [(''radialaxis'',
                   D [(''visible'', B True), (''range'', L [N 0, N 100])])]),
               (''showlegend'', B False),
               (''title'', S ''Risk Profile Assessment''),
               (''template'', S ''plotly_white''),
               (''height'', N 400)]) (\<lambda>_.
     ret fig))))"

subsection \<open>\<^verbatim>\<open>main\<close>\<close>

definition comparison_data :: "(string \<times> column) list" where
  "comparison_data =
     [(''Metric'', StrCol [''Total Returns'', ''Annualized Return'', ''Daily Average'',
                           ''Win Rate'', ''Sharpe Ratio'']),
      (''Our Algorithm'', StrCol [rupee @ ''124,477'', ''186.8%'', rupee @ ''2,593'',
                                  ''62.5%'', ''4.20'']),
      (''Best Traditional'', StrCol [rupee @ ''18,750'', ''28.1%'', rupee @ ''390'',
                                     ''52.0%'', ''0.9'']),
      (''Outperformance'', StrCol [''+564%'', ''+565%'', ''+565%'', ''+20%'', ''+367%''])]"

definition advantages :: "string list" where
  "advantages =
     [''Built-in Downside Protection: Options hedging limits maximum loss exposure during market downturns'',
      ''Volatility Advantage: Profits from increased volatility while protecting against adverse price movements'',
      ''Asymmetric Risk-Reward: Limited downside risk with unlimited upside potential through strategic options positioning'',
      ''Market Neutral Capability: Hedged positions reduce correlation with broader market movements'',
      ''Capital Preservation: Systematic protection mechanisms safeguard principal during volatile periods'',
      ''Time Decay Management: Strategic use of options time decay to enhance returns while maintaining protection'']"

text \<open>The block of lines 460 to 470, which quotes the targets the page promises.\<close>

definition performance_targets :: markup where
  "performance_targets =
     Div ''feature-card''
       [''PERFORMANCE TARGETS'',
        ''Annual Returns: 40-60%'',
        ''Win Rate: 60-65%'',
        ''Max Drawdown: &lt;25%'',
        ''Sharpe Ratio: &gt;3.0'']"

text \<open>
  The body of \<^verbatim>\<open>main\<close> is one straight sequence of calls, which the source divides
  by comments into parts. Each part is a block here, named after its comment, and
  \<open>main\<close> runs the parts in the source's order, with the horizontal rules between them.
\<close>

definition title_page :: "('s, unit) prog" where
  "title_page = block
    [st_markdown (Div ''main-header''
       [''ALGORITHMIC OPTIONS HEDGING STRATEGY'',
        ''Proprietary Quantitative Options Strategy with Advanced Risk Protection'',
        ''564%'',
        ''OUTPERFORMANCE vs Traditional Market Investments'',
        ''Proven algorithmic strategy with systematic risk management''])]"

definition key_metrics :: "('s, unit) prog" where
  "key_metrics = block
    [st_columns 4,
     with_col 1
      [st_markdown (Div ''metric-card'' [rupee @ ''124,477'', ''Total Returns'', ''2.5 Months''])],
     with_col 2
      [st_markdown (Div ''metric-card'' [''62.5%'', ''Win Rate'', ''Controlled Risk''])],
     with_col 3
      [st_markdown (Div ''metric-card'' [''186.8%'', ''Annualized Return'', ''Risk-Adjusted''])],
     with_col 4
      [st_markdown (Div ''metric-card'' [''4.20'', ''Sharpe Ratio'', ''Exceptional''])]]"

definition performance_overview :: "(nat \<Rightarrow> 's) \<Rightarrow> ('s \<Rightarrow> real \<times> 's) \<Rightarrow> ('s, unit) prog" where
  "performance_overview seed gauss = block
    [st_header ''PERFORMANCE OVERVIEW'',
     st_subheader ''Systematic outperformance across all metrics'',
     pbind (generate_performance_data seed gauss) (\<lambda>performance_data.
     pbind (create_performance_chart performance_data) (\<lambda>performance_fig.
     st_plotly_chart performance_fig))]"

definition comparison_table :: "('s, unit) prog" where
  "comparison_table = block
    [st_subheader ''Performance Comparison'',
     pbind (new_frame comparison_data) (\<lambda>df. st_dataframe df)]"

definition strategy_methodology :: "('s, unit) prog" where
  "strategy_methodology = block
    [st_header ''STRATEGY METHODOLOGY'',
     st_subheader ''Proprietary Algorithmic Framework'',
     st_columns 2,
     with_col 1
      [st_markdown (Div ''feature-card''
         [''Advanced Pattern Recognition'',
          ''Machine learning algorithms analyze historical market patterns and identify optimal options trading opportunities with precision timing.'']),
       st_markdown (Div ''feature-card''
         [''Options Hedging Protection'',
          ''Strategic options positions create natural hedges against market volatility, protecting capital during adverse movements while capturing upside potential.''])],
     with_col 2
      [st_markdown (Div ''feature-card''
         [''Systematic Execution'',
          ''Fully automated options strategy eliminates emotional bias and ensures consistent implementation of complex hedged positions.'']),
       st_markdown (Div ''feature-card''
         [''Multi-Index Options Selection'',
          ''Intelligent selection across Nifty and Sensex options with correlation-based hedging for enhanced risk-adjusted returns.''])]]"

definition hedging_advantages :: "('s, unit) prog" where
  "hedging_advantages = block
    [st_subheader ''HEDGING STRATEGY ADVANTAGES'',
     block (map (\<lambda>advantage. st_write (check_mark @ '' '' @ advantage)) advantages)]"

definition risk_analysis :: "('s, unit) prog" where
  "risk_analysis = block
    [st_header ''OPTIONS HEDGING & RISK CONTROLS'',
     st_subheader ''Multi-layered protection through strategic hedging'',
     st_columns 2,
     with_col 1
      [pbind create_drawdown_chart (\<lambda>drawdown_fig. st_plotly_chart drawdown_fig)],
     with_col 2
      [pbind create_risk_radar_chart (\<lambda>radar_fig. st_plotly_chart radar_fig)]]"

definition risk_controls :: "('s, unit) prog" where
  "risk_controls = block
    [st_subheader ''Risk Control Framework'',
     st_columns 3,
     with_col 1
      [st_markdown (Div ''feature-card''
         [''Options Hedging Protection'',
          ''Strategic options positions provide natural insurance against adverse market movements'']),
       st_markdown (Div ''feature-card''
         [''Volatility Shield'',
          ''Hedged positions benefit from volatility spikes while limiting downside exposure''])],
     with_col 2
      [st_markdown (Div ''feature-card''
         [''Dynamic Delta Management'',
          ''Real-time adjustment of position delta to maintain optimal risk-reward profile'']),
       st_markdown (Div ''feature-card''
         [''Time Decay Optimization'',
          ''Strategic use of options theta decay to generate income while maintaining protection''])],
     with_col 3
      [st_markdown (Div ''feature-card''
         [''Correlation Hedging'',
          ''Multi-index options selection reduces single-market dependency through diversification'']),
       st_markdown (Div ''feature-card''
         [''Tail Risk Protection'',
          ''Options structure provides asymmetric payoff protecting against extreme market events''])]]"

definition investment_opportunity :: "('s, unit) prog" where
  "investment_opportunity = block
    [st_header ''INVESTMENT OPPORTUNITY'',
     st_subheader ''Exclusive access to algorithmic excellence'',
     st_markdown (Div ''highlight-box''
       [''KEY INVESTMENT HIGHLIGHTS'',
        ''PROVEN PERFORMANCE: 564% outperformance vs benchmarks with hedging protection'',
        ''DOWNSIDE PROTECTION: Options hedging limits losses during market downturns'',
        ''VOLATILITY ADVANTAGE: Strategy profits from market uncertainty while maintaining capital safety'',
        ''SYSTEMATIC HEDGING: Automated risk management eliminates human emotion and bias'',
        ''ASYMMETRIC RETURNS: Limited downside risk with unlimited upside potential'',
        ''MULTI-LAYER PROTECTION: Options structure provides comprehensive risk management''])]"

definition investment_terms :: "('s, unit) prog" where
  "investment_terms = block
    [st_columns 2,
     with_col 1
      [st_markdown performance_targets,
       st_markdown (Div ''feature-card''
         [''INVESTMENT TERMS'',
          ''Minimum Investment: As per discussion'',
          ''Management Fee: Competitive rates'',
          ''Performance Fee: Success aligned'',
          ''Scalable structure''])],
     with_col 2
      [st_markdown (Div ''feature-card''
         [''OPERATIONAL EXCELLENCE'',
          ''Daily monitoring & execution'',
          ''Real-time risk management'',
          ''Monthly performance reporting'',
          ''Quarterly optimization reviews'']),
       st_markdown (Div ''feature-card''
         [''COMPETITIVE EDGE'',
          ''Proprietary & proven algorithm'',
          ''Fully systematic execution'',
          ''Various allocation sizes'',
          ''Continuous optimization''])]]"

definition footer :: "('s, unit) prog" where
  "footer = block
    [st_markdown (Div ''confidential-footer''
       [''CONFIDENTIAL - FOR QUALIFIED INVESTORS ONLY'',
        ''This presentation contains confidential and proprietary information''])]"

definition main :: "(nat \<Rightarrow> 's) \<Rightarrow> ('s \<Rightarrow> real \<times> 's) \<Rightarrow> ('s, unit) prog" where
  "main seed gauss =
     pbind (invoke ''main'' []) (\<lambda>_. block
      [title_page,
       key_metrics,
       st_markdown Rule,
       performance_overview seed gauss,
       comparison_table,
       st_markdown Rule,
       strategy_methodology,
       hedging_advantages,
       st_markdown Rule,
       risk_analysis,
       risk_controls,
       st_markdown Rule,
       investment_opportunity,
       investment_terms,
       footer])"

section \<open>Observations\<close>

text \<open>
  The definitions of this section do not model code. They name what the statements below
  talk about: the state a page load starts in, the object a call returned, the pre-scaled
  series inside the generator, the number a display string shows, and the kind of a
  rendered element.
\<close>

definition fresh :: "'s \<Rightarrow> 's world" where
  "fresh s = \<lparr>rng = s, heap = [], container = None, log = []\<rparr>"

definition returned_frame :: "error + (nat \<times> 's world) \<Rightarrow> dataframe option" where
  "returned_frame r =
     (case r of
        Inl e \<Rightarrow> None
      | Inr (a, w') \<Rightarrow>
          if a < length (heap w')
          then (case heap w' ! a of DataFrameObj df \<Rightarrow> Some df | FigureObj f \<Rightarrow> None)
          else None)"

definition returned_figure :: "error + (nat \<times> 's world) \<Rightarrow> figure option" where
  "returned_figure r =
     (case r of
        Inl e \<Rightarrow> None
      | Inr (a, w') \<Rightarrow>
          if a < length (heap w')
          then (case heap w' ! a of FigureObj f \<Rightarrow> Some f | DataFrameObj df \<Rightarrow> None)
          else None)"



definition shape :: "dataframe \<Rightarrow> (string \<times> nat) list" where
  "shape df = map (\<lambda>(k, c). (k, col_len c)) df"

text \<open>
  The four vectors of increments the generator draws, each paired with the generator state
  it leaves behind, and the expression \<^verbatim>\<open>a / a[-1] * target\<close> on a non-empty array.
\<close>

definition draws_our_algorithm ::
  "(nat \<Rightarrow> 's) \<Rightarrow> ('s \<Rightarrow> real \<times> 's) \<Rightarrow> real list \<times> 's" where
  "draws_our_algorithm seed gauss = normal gauss 2593 1500 48 (seed 42)"

definition draws_bank_nifty ::
  "(nat \<Rightarrow> 's) \<Rightarrow> ('s \<Rightarrow> real \<times> 's) \<Rightarrow> real list \<times> 's" where
  "draws_bank_nifty seed gauss = normal gauss 390 600 48 (snd (draws_our_algorithm seed gauss))"

definition draws_nifty_index ::
  "(nat \<Rightarrow> 's) \<Rightarrow> ('s \<Rightarrow> real \<times> 's) \<Rightarrow> real list \<times> 's" where
  "draws_nifty_index seed gauss = normal gauss 260 400 48 (snd (draws_bank_nifty seed gauss))"

definition draws_mutual_funds ::
  "(nat \<Rightarrow> 's) \<Rightarrow> ('s \<Rightarrow> real \<times> 's) \<Rightarrow> real list \<times> 's" where
  "draws_mutual_funds seed gauss = normal gauss 173 250 48 (snd (draws_nifty_index seed gauss))"

definition scaled :: "real list \<Rightarrow> real \<Rightarrow> npfloat list" where
  "scaled a target = map (\<lambda>x. np_mul (np_div x (last a)) target) a"

definition performance_frame :: "(nat \<Rightarrow> 's) \<Rightarrow> ('s \<Rightarrow> real \<times> 's) \<Rightarrow> dataframe" where
  "performance_frame seed gauss =
     [(''Date'', DateCol dates),
      (''Our_Algorithm'', NumCol (scaled (cumsum (fst (draws_our_algorithm seed gauss))) 124477)),
      (''Bank_Nifty'', NumCol (scaled (cumsum (fst (draws_bank_nifty seed gauss))) 18750)),
      (''Nifty_Index'', NumCol (scaled (cumsum (fst (draws_nifty_index seed gauss))) 12500)),
      (''Mutual_Funds'', NumCol (scaled (cumsum (fst (draws_mutual_funds seed gauss))) 8333))]"

text \<open>
  The number shown by a display string that shows one number: its decimal digits and
  decimal point, with currency sign, thousands separators, sign and unit skipped.
\<close>

definition digit :: "char \<Rightarrow> nat option" where
  "digit c =
     (let n = (of_char c :: nat) in if 48 \<le> n \<and> n \<le> 57 then Some (n - 48) else None)"

fun scan :: "string \<Rightarrow> nat \<times> nat \<times> bool \<Rightarrow> nat \<times> nat \<times> bool" where
  "scan [] st = st"
| "scan (c # cs) (m, k, p) =
     (case digit c of
        Some d \<Rightarrow> scan cs (10 * m + d, (if p then Suc k else k), p)
      | None \<Rightarrow> if c = CHR ''.'' then scan cs (m, k, True) else scan cs (m, k, p))"

definition number_of :: "string \<Rightarrow> real" where
  "number_of s = (case scan s (0, 0, False) of (m, k, p) \<Rightarrow> real m / 10 ^ k)"

definition shown :: "string \<Rightarrow> real list" where
  "shown key =
     (case map_of comparison_data key of Some (StrCol ss) \<Rightarrow> map number_of ss | _ \<Rightarrow> [])"

definition max_drawdown_target :: real where
  "max_drawdown_target =
     (case performance_targets of Div c ts \<Rightarrow> number_of (ts ! 3) | Rule \<Rightarrow> 0)"

text \<open>The blocks of the page that the structural statement counts, and the calls made.\<close>

datatype block_kind = Kpi | Chart string | Table | Footer

fun title_of :: "figure \<Rightarrow> string" where
  "title_of f = (case map_of (layout f) ''title'' of Some (S t) \<Rightarrow> t | _ \<Rightarrow> [])"

fun kind_of :: "event \<Rightarrow> block_kind option" where
  "kind_of (Emitted c (Markdown (Div cls ts))) =
     (if cls = ''metric-card'' then Some Kpi
      else if cls = ''confidential-footer'' then Some Footer
      else None)"
| "kind_of (Emitted c (PlotlyChart r f)) = Some (Chart (title_of f))"
| "kind_of (Emitted c (DataframeView r df)) = Some Table"
| "kind_of e = None"

definition blocks :: "event list \<Rightarrow> block_kind list" where
  "blocks es = List.map_filter kind_of es"

fun call_of :: "event \<Rightarrow> string option" where
  "call_of (Invoked name rs) = Some name"
| "call_of e = None"

definition calls :: "event list \<Rightarrow> string list" where
  "calls es = List.map_filter call_of es"

fun refs :: "event \<Rightarrow> nat list" where
  "refs (Invoked name rs) = rs"
| "refs (Emitted c (PlotlyChart r f)) = [r]"
| "refs (Emitted c (DataframeView r df)) = [r]"
| "refs e = []"


fun kwargs_of :: "trace \<Rightarrow> (string \<times> pvalue) list" where
  "kwargs_of (Scatter kw) = kw"
| "kwargs_of (Bar kw) = kw"
| "kwargs_of (Scatterpolar kw) = kw"

definition xy :: "trace \<Rightarrow> pvalue option \<times> pvalue option" where
  "xy t = (map_of (kwargs_of t) ''x'', map_of (kwargs_of t) ''y'')"

text \<open>The arrays a displayed chart holds, trace by trace, as they were when it was displayed.\<close>

fun arrays_of :: "event \<Rightarrow> (pvalue option \<times> pvalue option) list" where
  "arrays_of (Emitted c (PlotlyChart r f)) = map xy (data f)"
| "arrays_of e = []"

definition summary ::
  "event \<Rightarrow> block_kind option \<times> string option \<times> nat list \<times> (pvalue option \<times> pvalue option) list" where
  "summary e = (kind_of e, call_of e, refs e, arrays_of e)"

text \<open>
  \<open>adds w w' r objs news\<close>: state \<open>w'\<close> differs from \<open>w\<close> by the generator state \<open>r\<close>, by
  the new objects \<open>objs\<close> at the end of the heap, and by new events with summaries \<open>news\<close>.
\<close>

definition adds ::
  "'s world \<Rightarrow> 's world \<Rightarrow> 's \<Rightarrow> obj list \<Rightarrow>
   (block_kind option \<times> string option \<times> nat list \<times> (pvalue option \<times> pvalue option) list) list \<Rightarrow> bool" where
  "adds w w' r objs news \<longleftrightarrow>
     rng w' = r \<and> heap w' = heap w @ objs \<and> container w' = container w
     \<and> map summary (log w') = map summary (log w) @ news"

text \<open>The column a table reference gives for a key, if the reference is a table with that key.\<close>

definition column_at :: "'s world \<Rightarrow> nat \<Rightarrow> string \<Rightarrow> column option" where
  "column_at w a key =
     (if a < length (heap w)
      then (case heap w ! a of DataFrameObj df \<Rightarrow> map_of df key | FigureObj f \<Rightarrow> None)
      else None)"


text \<open>
  \<open>keeps n R p\<close>: run in a state whose heap has at least \<open>n\<close> objects, \<open>p\<close> either raises
  or returns a result satisfying \<open>R\<close> in a state whose heap still starts with the same
  \<open>n\<close> objects.
\<close>

definition keeps :: "nat \<Rightarrow> ('a \<Rightarrow> bool) \<Rightarrow> ('s, 'a) prog \<Rightarrow> bool" where
  "keeps n R p \<longleftrightarrow>
     (\<forall>w. n \<le> length (heap w) \<longrightarrow>
        (case p w of
           Inl e \<Rightarrow> True
         | Inr (x, w') \<Rightarrow> R x \<and> n \<le> length (heap w') \<and> take n (heap w') = take n (heap w)))"




definition dates_of :: "dataframe option \<Rightarrow> int list option" where
  "dates_of r =
     (case r of
        None \<Rightarrow> None
      | Some df \<Rightarrow> (case map_of df ''Date'' of Some (DateCol ds) \<Rightarrow> Some ds | _ \<Rightarrow> None))"


section \<open>Basic facts about the library model\<close>

lemma normal_length: "length (fst (normal gauss loc scale n s)) = n"
  by (induction n arbitrary: s) (simp_all add: case_prod_beta)

lemma cumsum_from_length: "length (cumsum_from acc xs) = length xs"
  by (induction xs arbitrary: acc) auto

lemma cumsum_length: "length (cumsum xs) = length xs"
  by (simp add: cumsum_def cumsum_from_length)



lemma dates_length: "length dates = 48"
  by code_simp

lemma rescale_ok: "a \<noteq> [] \<Longrightarrow> rescale a t = Inr (scaled a t)"
  by (simp add: rescale_def scaled_def)

lemma scaled_length: "length (scaled a t) = length a"
  by (simp add: scaled_def)

lemma cumsum_draws_length: "length (cumsum (fst (normal gauss loc scale 48 s))) = 48"
  by (simp add: cumsum_length normal_length)

lemma cumsum_draws_nonempty: "cumsum (fst (normal gauss loc scale 48 s)) \<noteq> []"
  using cumsum_draws_length [of gauss loc scale s] by auto

section \<open>What the generator returns\<close>

lemma generate_performance_data_eq:
  "generate_performance_data seed gauss w =
     Inr (length (heap w),
          w\<lparr>rng := snd (draws_mutual_funds seed gauss),
            heap := heap w @ [DataFrameObj (performance_frame seed gauss)],
            log := log w @ [Invoked ''generate_performance_data'' []]\<rparr>)"
  unfolding generate_performance_data_def
  by (simp add: pbind_def invoke_def np_random_seed_def np_random_normal_def lift_def
        rescale_ok cumsum_draws_nonempty new_frame_def pd_DataFrame_def alloc_def
        dates_length scaled_length cumsum_length normal_length
        performance_frame_def draws_our_algorithm_def draws_bank_nifty_def
        draws_nifty_index_def draws_mutual_funds_def case_prod_beta)

lemma returned_frame_generate:
  "returned_frame (generate_performance_data seed gauss w) = Some (performance_frame seed gauss)"
  by (simp add: generate_performance_data_eq returned_frame_def)

section \<open>The date index\<close>

lemma dates_of_generate:
  "dates_of (returned_frame (generate_performance_data seed gauss w)) = Some dates"
  by (simp add: returned_frame_generate dates_of_def performance_frame_def)

text \<open>
  C3. The \<^verbatim>\<open>Date\<close> column of the table the generator returns has exactly 48 entries.
  They are distinct and in increasing order, every one of them falls on a Monday to Friday,
  the first is 2025-09-01 (day 20332 since 1970-01-01, a Monday) and the last is
  2025-11-05; counted in days from the first, they are the 48 consecutive business days
  0, 1, 2, 3, 4, 7, 8 and so on. The table has the columns \<^verbatim>\<open>Date\<close>,
  \<^verbatim>\<open>Our_Algorithm\<close>, \<^verbatim>\<open>Bank_Nifty\<close>, \<^verbatim>\<open>Nifty_Index\<close> and \<^verbatim>\<open>Mutual_Funds\<close>, each of
  length 48, whatever the random generator and the state the call starts in.
\<close>

theorem returned_dates_are_48_business_days:
  "(case dates_of (returned_frame (generate_performance_data seed gauss w)) of
      None \<Rightarrow> False
    | Some ds \<Rightarrow>
        length ds = 48
        \<and> distinct ds
        \<and> sorted ds
        \<and> list_all is_business_day ds
        \<and> list_all (\<lambda>t. (t + 3) mod 7 < 5) ds
        \<and> hd ds = days_from_civil 2025 9 1
        \<and> hd ds = 20332
        \<and> weekday (hd ds) = 0
        \<and> last ds = days_from_civil 2025 11 5
        \<and> map (\<lambda>t. t - hd ds) ds =
            [0, 1, 2, 3, 4, 7, 8, 9, 10, 11, 14, 15, 16, 17, 18, 21, 22, 23, 24, 25, 28, 29, 30, 31, 32, 35, 36, 37, 38, 39, 42, 43, 44, 45, 46, 49, 50, 51, 52, 53, 56, 57, 58, 59, 60, 63, 64, 65])
   \<and> map_option shape (returned_frame (generate_performance_data seed gauss w)) =
       Some [(''Date'', 48), (''Our_Algorithm'', 48), (''Bank_Nifty'', 48),
             (''Nifty_Index'', 48), (''Mutual_Funds'', 48)]"
proof -
  have 1: "length dates = 48"
    by (rule dates_length)
  have 2: "distinct dates"
    by code_simp
  have 3: "sorted dates"
    by code_simp
  have 4: "list_all is_business_day dates"
    by code_simp
  have 5: "list_all (\<lambda>t. (t + 3) mod 7 < 5) dates"
    by code_simp
  have 6: "hd dates = days_from_civil 2025 9 1" "hd dates = 20332" "weekday (hd dates) = 0"
    "last dates = days_from_civil 2025 11 5"
    by code_simp+
  have 7: "map (\<lambda>t. t - hd dates) dates =
            [0, 1, 2, 3, 4, 7, 8, 9, 10, 11, 14, 15, 16, 17, 18, 21, 22, 23, 24, 25, 28, 29, 30, 31, 32, 35, 36, 37, 38, 39, 42, 43, 44, 45, 46, 49, 50, 51, 52, 53, 56, 57, 58, 59, 60, 63, 64, 65]"
    by code_simp
  have 8: "shape (performance_frame seed gauss) =
       [(''Date'', 48), (''Our_Algorithm'', 48), (''Bank_Nifty'', 48),
        (''Nifty_Index'', 48), (''Mutual_Funds'', 48)]"
    by (simp add: shape_def performance_frame_def dates_length scaled_length
          cumsum_length normal_length draws_our_algorithm_def draws_bank_nifty_def
          draws_nifty_index_def draws_mutual_funds_def)
  show ?thesis
    unfolding dates_of_generate using 1 2 3 4 5 6 7 8
    by (simp add: returned_frame_generate)
qed


section \<open>The comparison table\<close>

lemma shown_ours: "shown ''Our Algorithm'' = [124477, 186.8, 2593, 62.5, 4.2]"
  by (simp add: shown_def comparison_data_def number_of_def digit_def rupee_def)

lemma shown_best: "shown ''Best Traditional'' = [18750, 28.1, 390, 52, 0.9]"
  by (simp add: shown_def comparison_data_def number_of_def digit_def rupee_def)

lemma shown_outperformance: "shown ''Outperformance'' = [564, 565, 565, 20, 367]"
  by (simp add: shown_def comparison_data_def number_of_def digit_def)

text \<open>
  C4. In each of the five rows of the comparison table, the number shown under
  \<^verbatim>\<open>Outperformance\<close> is the percentage \<open>100 * (ours - best) / best\<close>, computed from the
  numbers shown under \<^verbatim>\<open>Our Algorithm\<close> and \<^verbatim>\<open>Best Traditional\<close> and rounded to the
  nearest whole percent.
\<close>

theorem comparison_table_outperformance:
  "map (\<lambda>(ours, best). real_of_int (round (100 * (ours - best) / best)))
       (zip (shown ''Our Algorithm'') (shown ''Best Traditional'')) = shown ''Outperformance''
   \<and> length (shown ''Outperformance'') = 5"
  by (simp add: shown_ours shown_best shown_outperformance round_def)

section \<open>The drawdown figures\<close>

lemma max_drawdown_target_eq: "max_drawdown_target = 25"
  by (simp add: max_drawdown_target_def performance_targets_def number_of_def digit_def)

lemma create_drawdown_chart_eq:
  "\<exists>f. create_drawdown_chart w =
          Inr (length (heap w),
               w\<lparr>heap := heap w @ [FigureObj f],
                 log := log w @ [Invoked ''create_drawdown_chart'' []]\<rparr>)
        \<and> data f = [Bar [(''x'', L (map S strategies)), (''y'', L (map N drawdowns)),
                         (''marker_color'', L (map S colors))]]
        \<and> title_of f = ''Maximum Drawdown Comparison''"
  by (rule exI [of _ "the (returned_figure (create_drawdown_chart w))"])
     (simp add: create_drawdown_chart_def pbind_def invoke_def go_Figure_def alloc_def
        update_layout_def read_figure_def write_figure_def ret_def returned_figure_def)

text \<open>
  C10. The drawdown chart has four strategies and four drawdown values, paired in order.
  The value for \<^verbatim>\<open>Our Algorithm\<close> is 19.6; it is greater than each of the other three
  values and smaller than 25, the maximum drawdown that the page's targets block quotes.
  The bar trace of the figure the builder returns holds exactly these two lists.
\<close>

theorem drawdown_literals:
  "length strategies = 4
   \<and> length drawdowns = 4
   \<and> hd (zip strategies drawdowns) = (''Our Algorithm'', 19.6)
   \<and> list_all (\<lambda>d. d < hd drawdowns) (tl drawdowns)
   \<and> hd drawdowns < max_drawdown_target
   \<and> max_drawdown_target = 25
   \<and> map_option data (returned_figure (create_drawdown_chart w)) =
       Some [Bar [(''x'', L (map S strategies)), (''y'', L (map N drawdowns)),
                  (''marker_color'', L (map S colors))]]"
proof -
  obtain f where f:
    "create_drawdown_chart w =
       Inr (length (heap w),
            w\<lparr>heap := heap w @ [FigureObj f],
              log := log w @ [Invoked ''create_drawdown_chart'' []]\<rparr>)"
    "data f = [Bar [(''x'', L (map S strategies)), (''y'', L (map N drawdowns)),
                    (''marker_color'', L (map S colors))]]"
    using create_drawdown_chart_eq [of w] by blast
  have "map_option data (returned_figure (create_drawdown_chart w)) =
       Some [Bar [(''x'', L (map S strategies)), (''y'', L (map N drawdowns)),
                  (''marker_color'', L (map S colors))]]"
    by (simp add: f returned_figure_def)
  moreover have "hd (zip strategies drawdowns) = (''Our Algorithm'', 19.6)"
    by (simp add: strategies_def drawdowns_def)
  moreover have "list_all (\<lambda>d. d < hd drawdowns) (tl drawdowns)"
    by (simp add: drawdowns_def)
  moreover have "hd drawdowns < max_drawdown_target"
    by (simp add: drawdowns_def max_drawdown_target_eq)
  ultimately show ?thesis
    by (simp add: strategies_def drawdowns_def max_drawdown_target_eq)
qed

section \<open>The generated series\<close>



section \<open>The draws as a stream of deviates\<close>





















text \<open>
  C2. The generator takes no argument and starts by seeding the random generator with 42.
  So the table it returns does not depend on the state it is called in: two calls from any
  two states return the same table, element for element, and so does a second call made
  right after a first one. The generator state it leaves is the same as well.
\<close>

theorem generate_performance_data_deterministic:
  "returned_frame (generate_performance_data seed gauss w1) =
     returned_frame (generate_performance_data seed gauss w2)
   \<and> returned_frame (generate_performance_data seed gauss w1) \<noteq> None
   \<and> (case generate_performance_data seed gauss w1 of
         Inl e \<Rightarrow> False
       | Inr (a, w1') \<Rightarrow>
           returned_frame (generate_performance_data seed gauss w1') =
             returned_frame (generate_performance_data seed gauss w1)
           \<and> map_sum id (rng \<circ> snd) (generate_performance_data seed gauss w1') = Inr (rng w1'))"
proof -
  have same: "returned_frame (generate_performance_data seed gauss w) =
      Some (performance_frame seed gauss)" for w :: "'a world"
    by (rule returned_frame_generate)
  have again: "(case generate_performance_data seed gauss w1 of
         Inl e \<Rightarrow> False
       | Inr (a, w1') \<Rightarrow>
           map_sum id (rng \<circ> snd) (generate_performance_data seed gauss w1') = Inr (rng w1'))"
    by (simp add: generate_performance_data_eq)
  show ?thesis
    unfolding same using again by (simp split: sum.splits prod.splits)
qed




section \<open>The chart builders\<close>

lemma create_performance_chart_eq:
  assumes "a < length (heap w)"
    and "heap w ! a = DataFrameObj df"
    and "map_of df ''Date'' = Some x"
    and "map_of df ''Our_Algorithm'' = Some y1"
    and "map_of df ''Bank_Nifty'' = Some y2"
    and "map_of df ''Nifty_Index'' = Some y3"
    and "map_of df ''Mutual_Funds'' = Some y4"
  shows "\<exists>f. create_performance_chart a w =
              Inr (length (heap w),
                   w\<lparr>heap := heap w @ [FigureObj f],
                     log := log w @ [Invoked ''create_performance_chart'' [a]]\<rparr>)
            \<and> map xy (data f) =
                [(Some (A x), Some (A y1)), (Some (A x), Some (A y2)),
                 (Some (A x), Some (A y3)), (Some (A x), Some (A y4))]
            \<and> title_of f = ''Cumulative Performance Comparison (Sep - Nov 2025)''"
  using assms
  by (intro exI [of _ "the (returned_figure (create_performance_chart a w))"])
     (simp add: create_performance_chart_def pbind_def invoke_def go_Figure_def alloc_def
        frame_getitem_def read_frame_def getitem_def lift_def add_trace_def
        update_layout_def read_figure_def write_figure_def ret_def returned_figure_def
        nth_append xy_def)

lemma create_risk_radar_chart_eq:
  "\<exists>f. create_risk_radar_chart w =
          Inr (length (heap w),
               w\<lparr>heap := heap w @ [FigureObj f],
                 log := log w @ [Invoked ''create_risk_radar_chart'' []]\<rparr>)
        \<and> data f = [Scatterpolar
                      [(''r'', L (map N values_list)),
                       (''theta'', L (map S categories)),
                       (''fill'', S ''toself''),
                       (''name'', S ''Our Algorithm''),
                       (''line_color'', S ''#38a169''),
                       (''fillcolor'', S ''rgba(56, 161, 105, 0.3)'')]]
        \<and> title_of f = ''Risk Profile Assessment''"
  by (rule exI [of _ "the (returned_figure (create_risk_radar_chart w))"])
     (simp add: create_risk_radar_chart_def pbind_def invoke_def go_Figure_def alloc_def
        add_trace_def update_layout_def read_figure_def write_figure_def ret_def
        returned_figure_def)

section \<open>The page\<close>

lemmas prog_defs =
  pbind_def ret_def lift_def invoke_def emit_def alloc_def read_frame_def read_figure_def
  write_figure_def frame_getitem_def getitem_def new_frame_def pd_DataFrame_def
  go_Figure_def add_trace_def update_layout_def
  st_markdown_def st_header_def st_subheader_def st_columns_def st_write_def
  st_plotly_chart_def st_dataframe_def with_col_def

lemma blocks_summary: "blocks es = List.map_filter fst (map summary es)"
  by (induction es) (simp_all add: blocks_def summary_def List.map_filter_simps split: option.splits)

lemma calls_summary: "calls es = List.map_filter (fst \<circ> snd) (map summary es)"
  by (induction es) (simp_all add: calls_def summary_def List.map_filter_simps split: option.splits)

lemma refs_summary:
  "map summary (filter (\<lambda>e. r \<in> set (refs e)) es) =
     filter (\<lambda>x. r \<in> set (fst (snd (snd x)))) (map summary es)"
  by (induction es) (simp_all add: summary_def)

text \<open>
  Each part of the page, run in any state, returns normally. The parts without charts or
  tables only add elements to the display.
\<close>

lemma rule_effect:
  "\<exists>w'. st_markdown Rule w = Inr ((), w') \<and> adds w w' (rng w) [] [(None, None, [], [])]"
  by (rule exI [of _ "snd (projr (st_markdown Rule w))"])
     (simp add: adds_def prog_defs summary_def)

lemma title_page_effect:
  "\<exists>w'. title_page w = Inr ((), w')
        \<and> adds w w' (rng w) []
           [(None, None, [], [])]"
  by (rule exI [of _ "snd (projr (title_page w))"])
     (simp add: adds_def title_page_def prog_defs summary_def numeral_eq_Suc)

lemma key_metrics_effect:
  "\<exists>w'. key_metrics w = Inr ((), w')
        \<and> adds w w' (rng w) []
           [(None, None, [], []), (Some Kpi, None, [], []), (Some Kpi, None, [], []),
            (Some Kpi, None, [], []), (Some Kpi, None, [], [])]"
  by (rule exI [of _ "snd (projr (key_metrics w))"])
     (simp add: adds_def key_metrics_def prog_defs summary_def numeral_eq_Suc)

lemma strategy_methodology_effect:
  "\<exists>w'. strategy_methodology w = Inr ((), w')
        \<and> adds w w' (rng w) []
           (replicate 7 (None, None, [], []))"
  by (rule exI [of _ "snd (projr (strategy_methodology w))"])
     (simp add: adds_def strategy_methodology_def prog_defs summary_def numeral_eq_Suc)

lemma hedging_advantages_effect:
  "\<exists>w'. hedging_advantages w = Inr ((), w')
        \<and> adds w w' (rng w) []
           (replicate 7 (None, None, [], []))"
  by (rule exI [of _ "snd (projr (hedging_advantages w))"])
     (simp add: adds_def hedging_advantages_def advantages_def prog_defs summary_def numeral_eq_Suc)

lemma risk_controls_effect:
  "\<exists>w'. risk_controls w = Inr ((), w')
        \<and> adds w w' (rng w) []
           (replicate 8 (None, None, [], []))"
  by (rule exI [of _ "snd (projr (risk_controls w))"])
     (simp add: adds_def risk_controls_def prog_defs summary_def numeral_eq_Suc)

lemma investment_opportunity_effect:
  "\<exists>w'. investment_opportunity w = Inr ((), w')
        \<and> adds w w' (rng w) []
           (replicate 3 (None, None, [], []))"
  by (rule exI [of _ "snd (projr (investment_opportunity w))"])
     (simp add: adds_def investment_opportunity_def prog_defs summary_def numeral_eq_Suc)

lemma investment_terms_effect:
  "\<exists>w'. investment_terms w = Inr ((), w')
        \<and> adds w w' (rng w) []
           (replicate 5 (None, None, [], []))"
  by (rule exI [of _ "snd (projr (investment_terms w))"])
     (simp add: adds_def investment_terms_def performance_targets_def prog_defs summary_def numeral_eq_Suc)

lemma footer_effect:
  "\<exists>w'. footer w = Inr ((), w')
        \<and> adds w w' (rng w) []
           [(Some Footer, None, [], [])]"
  by (rule exI [of _ "snd (projr (footer w))"])
     (simp add: adds_def footer_def prog_defs summary_def numeral_eq_Suc)

text \<open>The parts that build tables and figures add them to the heap and change nothing in it.\<close>

lemma performance_overview_effect:
  "\<exists>w'. performance_overview seed gauss w = Inr ((), w')
        \<and> (\<exists>f. adds w w' (snd (draws_mutual_funds seed gauss))
             [DataFrameObj (performance_frame seed gauss), FigureObj f]
             [(None, None, [], []),
              (None, None, [], []),
              (None, Some ''generate_performance_data'', [], []),
              (None, Some ''create_performance_chart'', [length (heap w)], []),
              (Some (Chart ''Cumulative Performance Comparison (Sep - Nov 2025)''), None,
               [Suc (length (heap w))],
               map (\<lambda>key. (map_option A (map_of (performance_frame seed gauss) ''Date''),
                           map_option A (map_of (performance_frame seed gauss) key)))
                 [''Our_Algorithm'', ''Bank_Nifty'', ''Nifty_Index'', ''Mutual_Funds''])])"
  by (intro conjI exI [of _ "snd (projr (performance_overview seed gauss w))"]
        exI [of _ "case heap (snd (projr (performance_overview seed gauss w))) ! Suc (length (heap w))
                   of FigureObj f \<Rightarrow> f"])
     (simp_all add: adds_def performance_overview_def prog_defs
        generate_performance_data_eq create_performance_chart_def performance_frame_def
        nth_append list_update_append summary_def xy_def)

lemma comparison_table_effect:
  "\<exists>w'. comparison_table w = Inr ((), w')
        \<and> adds w w' (rng w) [DataFrameObj comparison_data]
             [(None, None, [], []), (Some Table, None, [length (heap w)], [])]"
  by (rule exI [of _ "snd (projr (comparison_table w))"])
     (simp add: adds_def comparison_table_def prog_defs comparison_data_def summary_def)

lemma risk_analysis_effect:
  "\<exists>w'. risk_analysis w = Inr ((), w')
        \<and> (\<exists>f g. adds w w' (rng w) [FigureObj f, FigureObj g]
             [(None, None, [], []),
              (None, None, [], []),
              (None, None, [], []),
              (None, Some ''create_drawdown_chart'', [], []),
              (Some (Chart ''Maximum Drawdown Comparison''), None, [length (heap w)],
               [(Some (L (map S strategies)), Some (L (map N drawdowns)))]),
              (None, Some ''create_risk_radar_chart'', [], []),
              (Some (Chart ''Risk Profile Assessment''), None, [Suc (length (heap w))],
               [(None, None)])])"
  by (intro conjI exI [of _ "snd (projr (risk_analysis w))"]
        exI [of _ "case heap (snd (projr (risk_analysis w))) ! length (heap w)
                   of FigureObj f \<Rightarrow> f"]
        exI [of _ "case heap (snd (projr (risk_analysis w))) ! Suc (length (heap w))
                   of FigureObj f \<Rightarrow> f"])
     (simp_all add: adds_def risk_analysis_def prog_defs
        create_drawdown_chart_def create_risk_radar_chart_def
        nth_append list_update_append summary_def xy_def)

text \<open>Running the parts one after the other.\<close>

lemma block_step:
  assumes "\<exists>w1. p w = Inr ((), w1) \<and> R w1"
    and "\<And>w1. R w1 \<Longrightarrow> \<exists>w'. block ps w1 = Inr ((), w') \<and> Q w'"
  shows "\<exists>w'. block (p # ps) w = Inr ((), w') \<and> Q w'"
  using assms by (auto simp: pbind_def)

lemmas part_effects =
  title_page_effect key_metrics_effect rule_effect performance_overview_effect
  comparison_table_effect strategy_methodology_effect hedging_advantages_effect
  risk_analysis_effect risk_controls_effect investment_opportunity_effect
  investment_terms_effect footer_effect

lemma main_effect:
  "\<exists>w'. main seed gauss (fresh s) = Inr ((), w')
        \<and> (rng w' = snd (draws_mutual_funds seed gauss)
           \<and> container w' = None
           \<and> length (heap w') = 5
           \<and> heap w' ! 0 = DataFrameObj (performance_frame seed gauss)
           \<and> heap w' ! 2 = DataFrameObj comparison_data
           \<and> map summary (log w') =
               [(None, Some ''main'', [], [])]
               @ replicate 2 (None, None, [], [])
               @ replicate 4 (Some Kpi, None, [], [])
               @ replicate 3 (None, None, [], [])
               @ [(None, Some ''generate_performance_data'', [], []),
                  (None, Some ''create_performance_chart'', [0], []),
                  (Some (Chart ''Cumulative Performance Comparison (Sep - Nov 2025)''), None, [1],
                   map (\<lambda>key. (map_option A (map_of (performance_frame seed gauss) ''Date''),
                               map_option A (map_of (performance_frame seed gauss) key)))
                     [''Our_Algorithm'', ''Bank_Nifty'', ''Nifty_Index'', ''Mutual_Funds'']),
                  (None, None, [], []),
                  (Some Table, None, [2], [])]
               @ replicate 19 (None, None, [], [])
               @ [(None, Some ''create_drawdown_chart'', [], []),
                  (Some (Chart ''Maximum Drawdown Comparison''), None, [3],
                   [(Some (L (map S strategies)), Some (L (map N drawdowns)))]),
                  (None, Some ''create_risk_radar_chart'', [], []),
                  (Some (Chart ''Risk Profile Assessment''), None, [4], [(None, None)])]
               @ replicate 17 (None, None, [], [])
               @ [(Some Footer, None, [], [])])"
proof -
  define w0 where "w0 = (fresh s)\<lparr>log := [Invoked ''main'' []]\<rparr>"
  have i: "invoke ''main'' [] (fresh s) = Inr ((), w0)"
    by (simp add: w0_def invoke_def fresh_def)
  have v0: "rng w0 = s" "heap w0 = []" "container w0 = None"
    "map summary (log w0) = [(None, Some ''main'', [], [])]"
    by (simp_all add: w0_def fresh_def summary_def)
  have "\<exists>w'. block
      [title_page, key_metrics, st_markdown Rule, performance_overview seed gauss,
       comparison_table, st_markdown Rule, strategy_methodology, hedging_advantages,
       st_markdown Rule, risk_analysis, risk_controls, st_markdown Rule,
       investment_opportunity, investment_terms, footer] w0 = Inr ((), w')
        \<and> (rng w' = snd (draws_mutual_funds seed gauss)
           \<and> container w' = None
           \<and> length (heap w') = 5
           \<and> heap w' ! 0 = DataFrameObj (performance_frame seed gauss)
           \<and> heap w' ! 2 = DataFrameObj comparison_data
           \<and> map summary (log w') =
               [(None, Some ''main'', [], [])]
               @ replicate 2 (None, None, [], [])
               @ replicate 4 (Some Kpi, None, [], [])
               @ replicate 3 (None, None, [], [])
               @ [(None, Some ''generate_performance_data'', [], []),
                  (None, Some ''create_performance_chart'', [0], []),
                  (Some (Chart ''Cumulative Performance Comparison (Sep - Nov 2025)''), None, [1],
                   map (\<lambda>key. (map_option A (map_of (performance_frame seed gauss) ''Date''),
                               map_option A (map_of (performance_frame seed gauss) key)))
                     [''Our_Algorithm'', ''Bank_Nifty'', ''Nifty_Index'', ''Mutual_Funds'']),
                  (None, None, [], []),
                  (Some Table, None, [2], [])]
               @ replicate 19 (None, None, [], [])
               @ [(None, Some ''create_drawdown_chart'', [], []),
                  (Some (Chart ''Maximum Drawdown Comparison''), None, [3],
                   [(Some (L (map S strategies)), Some (L (map N drawdowns)))]),
                  (None, Some ''create_risk_radar_chart'', [], []),
                  (Some (Chart ''Risk Profile Assessment''), None, [4], [(None, None)])]
               @ replicate 17 (None, None, [], [])
               @ [(Some Footer, None, [], [])])"
    apply (rule block_step, rule part_effects)+
    apply (simp add: ret_def)
    apply (elim exE)
    apply (simp add: adds_def v0 numeral_eq_Suc)
    done
  then show ?thesis
    by (simp add: main_def pbind_def i)
qed

text \<open>
  C6. One run of \<^verbatim>\<open>main\<close> on a fresh page returns normally. Of the blocks it writes,
  the KPI cards, chart embeds, tables and footers are, in this order: four KPI cards, the
  performance chart, the comparison table, the drawdown chart, the risk radar chart, and
  the footer, which is the last element written. The generator and the three chart
  builders are called once each, in this order.
\<close>

theorem main_emits_in_order:
  "(case main seed gauss (fresh s) of
      Inl e \<Rightarrow> False
    | Inr (u, w') \<Rightarrow>
        blocks (log w') =
          [Kpi, Kpi, Kpi, Kpi,
           Chart ''Cumulative Performance Comparison (Sep - Nov 2025)'',
           Table,
           Chart ''Maximum Drawdown Comparison'',
           Chart ''Risk Profile Assessment'',
           Footer]
        \<and> kind_of (last (log w')) = Some Footer
        \<and> calls (log w') =
            [''main'', ''generate_performance_data'', ''create_performance_chart'',
             ''create_drawdown_chart'', ''create_risk_radar_chart''])"
proof -
  obtain w' where run: "main seed gauss (fresh s) = Inr ((), w')"
    and sums: "map summary (log w') =
               [(None, Some ''main'', [], [])]
               @ replicate 2 (None, None, [], [])
               @ replicate 4 (Some Kpi, None, [], [])
               @ replicate 3 (None, None, [], [])
               @ [(None, Some ''generate_performance_data'', [], []),
                  (None, Some ''create_performance_chart'', [0], []),
                  (Some (Chart ''Cumulative Performance Comparison (Sep - Nov 2025)''), None, [1],
                   map (\<lambda>key. (map_option A (map_of (performance_frame seed gauss) ''Date''),
                               map_option A (map_of (performance_frame seed gauss) key)))
                     [''Our_Algorithm'', ''Bank_Nifty'', ''Nifty_Index'', ''Mutual_Funds'']),
                  (None, None, [], []),
                  (Some Table, None, [2], [])]
               @ replicate 19 (None, None, [], [])
               @ [(None, Some ''create_drawdown_chart'', [], []),
                  (Some (Chart ''Maximum Drawdown Comparison''), None, [3],
                   [(Some (L (map S strategies)), Some (L (map N drawdowns)))]),
                  (None, Some ''create_risk_radar_chart'', [], []),
                  (Some (Chart ''Risk Profile Assessment''), None, [4], [(None, None)])]
               @ replicate 17 (None, None, [], [])
               @ [(Some Footer, None, [], [])]"
    using main_effect [of seed gauss s] by blast
  have b: "blocks (log w') =
          [Kpi, Kpi, Kpi, Kpi,
           Chart ''Cumulative Performance Comparison (Sep - Nov 2025)'',
           Table,
           Chart ''Maximum Drawdown Comparison'',
           Chart ''Risk Profile Assessment'',
           Footer]"
    unfolding blocks_summary sums
    by (simp add: List.map_filter_simps numeral_eq_Suc)
  have c: "calls (log w') =
            [''main'', ''generate_performance_data'', ''create_performance_chart'',
             ''create_drawdown_chart'', ''create_risk_radar_chart'']"
    unfolding calls_summary sums
    by (simp add: List.map_filter_simps numeral_eq_Suc)
  have ne: "log w' \<noteq> []"
    using sums by auto
  have "fst (summary (last (log w'))) = Some Footer"
    unfolding last_map [OF ne, of summary, symmetric] sums by simp
  then have l: "kind_of (last (log w')) = Some Footer"
    by (simp add: summary_def)
  show ?thesis
    by (simp add: run b c l)
qed

text \<open>
  The column lookup is the only place where a chart builder can raise in the module's own
  code. With the five columns present \<^verbatim>\<open>create_performance_chart\<close> returns a figure, and
  it does so on the table the generator returns, for every random generator. Whether
  plotly accepts the property values that the builders pass is decided inside plotly and
  is not modelled.
\<close>

lemma create_performance_chart_returns:
  assumes "list_all (\<lambda>key. column_at w a key \<noteq> None)
             [''Date'', ''Our_Algorithm'', ''Bank_Nifty'', ''Nifty_Index'', ''Mutual_Funds'']"
  shows "returned_figure (create_performance_chart a w) \<noteq> None"
    and "returned_figure
           (pbind (generate_performance_data seed gauss) create_performance_chart w) \<noteq> None"
proof -
  from assms obtain df where a: "a < length (heap w)" and df: "heap w ! a = DataFrameObj df"
    by (auto simp: column_at_def split: if_splits obj.splits)
  from assms a df obtain x y1 y2 y3 y4 where cols:
    "map_of df ''Date'' = Some x" "map_of df ''Our_Algorithm'' = Some y1"
    "map_of df ''Bank_Nifty'' = Some y2" "map_of df ''Nifty_Index'' = Some y3"
    "map_of df ''Mutual_Funds'' = Some y4"
    by (auto simp: column_at_def)
  show "returned_figure (create_performance_chart a w) \<noteq> None"
    using create_performance_chart_eq [OF a df cols]
    by (auto simp: returned_figure_def)
  let ?w = "w\<lparr>rng := snd (draws_mutual_funds seed gauss),
            heap := heap w @ [DataFrameObj (performance_frame seed gauss)],
            log := log w @ [Invoked ''generate_performance_data'' []]\<rparr>"
  have "\<exists>f. create_performance_chart (length (heap w)) ?w =
          Inr (length (heap ?w),
               ?w\<lparr>heap := heap ?w @ [FigureObj f],
                  log := log ?w @ [Invoked ''create_performance_chart'' [length (heap w)]]\<rparr>)"
    using create_performance_chart_eq [of "length (heap w)" ?w "performance_frame seed gauss"]
    by (simp add: performance_frame_def) blast
  then show "returned_figure
      (pbind (generate_performance_data seed gauss) create_performance_chart w) \<noteq> None"
    by (auto simp: pbind_def generate_performance_data_eq returned_figure_def nth_append)
qed

section \<open>What the performance chart builder leaves alone\<close>

lemma keeps_bind:
  fixes p :: "('s, 'a) prog" and f :: "'a \<Rightarrow> ('s, 'b) prog"
  assumes "keeps n R p" and "\<And>x. R x \<Longrightarrow> keeps n Q (f x)"
  shows "keeps n Q (pbind p f)"
  unfolding keeps_def
proof (intro allI impI)
  fix w :: "'s world"
  assume n: "n \<le> length (heap w)"
  show "case pbind p f w of
          Inl e \<Rightarrow> True
        | Inr (x, w') \<Rightarrow> Q x \<and> n \<le> length (heap w') \<and> take n (heap w') = take n (heap w)"
  proof (cases "p w")
    case (Inl e)
    then show ?thesis by (simp add: pbind_def)
  next
    case (Inr r)
    obtain x w1 where r: "r = (x, w1)" by (cases r)
    from assms(1) n Inr r have 1: "R x" "n \<le> length (heap w1)"
      "take n (heap w1) = take n (heap w)"
      by (auto simp: keeps_def)
    from assms(2) [OF 1(1)] 1(2) have
      "case f x w1 of
          Inl e \<Rightarrow> True
        | Inr (y, w') \<Rightarrow> Q y \<and> n \<le> length (heap w') \<and> take n (heap w') = take n (heap w1)"
      by (auto simp: keeps_def)
    with Inr r 1(3) show ?thesis
      by (auto simp: pbind_def split: sum.splits)
  qed
qed

lemma keeps_ret: "keeps n (\<lambda>x. True) (ret v)"
  by (simp add: keeps_def ret_def)

lemma keeps_invoke: "keeps n (\<lambda>x. True) (invoke name rs)"
  by (simp add: keeps_def invoke_def)

lemma keeps_go_Figure: "keeps n (\<lambda>fig. n \<le> fig) (go_Figure ts)"
  by (simp add: keeps_def go_Figure_def alloc_def)

lemma keeps_frame_getitem: "keeps n (\<lambda>x. True) (frame_getitem a key)"
  by (simp add: keeps_def frame_getitem_def read_frame_def lift_def getitem_def pbind_def
        split: obj.splits option.splits)

lemma keeps_add_trace: "n \<le> fig \<Longrightarrow> keeps n (\<lambda>x. True) (add_trace fig t)"
  by (simp add: keeps_def add_trace_def read_figure_def write_figure_def pbind_def
        split: obj.splits)

lemma keeps_update_layout: "n \<le> fig \<Longrightarrow> keeps n (\<lambda>x. True) (update_layout fig kw)"
  by (simp add: keeps_def update_layout_def read_figure_def write_figure_def pbind_def
        split: obj.splits)

lemma keeps_create_performance_chart: "keeps n (\<lambda>x. True) (create_performance_chart a)"
  unfolding create_performance_chart_def
  by (intro keeps_bind [OF keeps_invoke] keeps_bind [OF keeps_go_Figure]
        keeps_bind [OF keeps_frame_getitem] keeps_bind [OF keeps_add_trace]
        keeps_bind [OF keeps_update_layout] keeps_ret)

lemma create_performance_chart_frame:
  "(case create_performance_chart a w of
      Inl e \<Rightarrow> True
    | Inr (fig, w') \<Rightarrow> take (length (heap w)) (heap w') = heap w)"
  using keeps_create_performance_chart [of "length (heap w)" a]
  by (auto simp: keeps_def split: sum.splits)

text \<open>
  C8. \<^verbatim>\<open>create_performance_chart\<close> leaves every object that existed before the call as
  it was, the table it reads included: it writes only to the figure it creates. In a run
  of \<^verbatim>\<open>main\<close>, the table is the first object created; the only call or element that is
  given its reference is the one call of \<^verbatim>\<open>create_performance_chart\<close>; the arrays of the
  chart that is displayed are the table's \<^verbatim>\<open>Date\<close> column paired with each of its four
  series; and when \<^verbatim>\<open>main\<close> ends the table is still what the generator built.
\<close>

theorem performance_table_not_mutated:
  "(case create_performance_chart a w of
      Inl e \<Rightarrow> True
    | Inr (fig, w1) \<Rightarrow> take (length (heap w)) (heap w1) = heap w)
   \<and> (case main seed gauss (fresh s) of
        Inl e \<Rightarrow> False
      | Inr (u, w') \<Rightarrow>
          heap w' ! 0 = DataFrameObj (performance_frame seed gauss)
          \<and> map summary (filter (\<lambda>e. 0 \<in> set (refs e)) (log w')) =
              [(None, Some ''create_performance_chart'', [0], [])]
          \<and> map arrays_of (filter (\<lambda>e. 1 \<in> set (refs e)) (log w')) =
              [map (\<lambda>key. (map_option A (map_of (performance_frame seed gauss) ''Date''),
                          map_option A (map_of (performance_frame seed gauss) key)))
                 [''Our_Algorithm'', ''Bank_Nifty'', ''Nifty_Index'', ''Mutual_Funds'']])"
proof -
  obtain w' where run: "main seed gauss (fresh s) = Inr ((), w')"
    and h0: "heap w' ! 0 = DataFrameObj (performance_frame seed gauss)"
    and sums: "map summary (log w') =
               [(None, Some ''main'', [], [])]
               @ replicate 2 (None, None, [], [])
               @ replicate 4 (Some Kpi, None, [], [])
               @ replicate 3 (None, None, [], [])
               @ [(None, Some ''generate_performance_data'', [], []),
                  (None, Some ''create_performance_chart'', [0], []),
                  (Some (Chart ''Cumulative Performance Comparison (Sep - Nov 2025)''), None, [1],
                   map (\<lambda>key. (map_option A (map_of (performance_frame seed gauss) ''Date''),
                               map_option A (map_of (performance_frame seed gauss) key)))
                     [''Our_Algorithm'', ''Bank_Nifty'', ''Nifty_Index'', ''Mutual_Funds'']),
                  (None, None, [], []),
                  (Some Table, None, [2], [])]
               @ replicate 19 (None, None, [], [])
               @ [(None, Some ''create_drawdown_chart'', [], []),
                  (Some (Chart ''Maximum Drawdown Comparison''), None, [3],
                   [(Some (L (map S strategies)), Some (L (map N drawdowns)))]),
                  (None, Some ''create_risk_radar_chart'', [], []),
                  (Some (Chart ''Risk Profile Assessment''), None, [4], [(None, None)])]
               @ replicate 17 (None, None, [], [])
               @ [(Some Footer, None, [], [])]"
    using main_effect [of seed gauss s] by blast
  have r0: "map summary (filter (\<lambda>e. 0 \<in> set (refs e)) (log w')) =
              [(None, Some ''create_performance_chart'', [0], [])]"
    unfolding refs_summary sums by (simp add: numeral_eq_Suc)
  have "map summary (filter (\<lambda>e. 1 \<in> set (refs e)) (log w')) =
      [(Some (Chart ''Cumulative Performance Comparison (Sep - Nov 2025)''), None, [1],
        map (\<lambda>key. (map_option A (map_of (performance_frame seed gauss) ''Date''),
                    map_option A (map_of (performance_frame seed gauss) key)))
          [''Our_Algorithm'', ''Bank_Nifty'', ''Nifty_Index'', ''Mutual_Funds''])]"
    unfolding refs_summary sums by (simp add: numeral_eq_Suc)
  then have "map (snd \<circ> snd \<circ> snd \<circ> summary) (filter (\<lambda>e. 1 \<in> set (refs e)) (log w')) =
      [map (\<lambda>key. (map_option A (map_of (performance_frame seed gauss) ''Date''),
                  map_option A (map_of (performance_frame seed gauss) key)))
          [''Our_Algorithm'', ''Bank_Nifty'', ''Nifty_Index'', ''Mutual_Funds'']]"
    unfolding map_map [symmetric] by simp
  then have r1: "map arrays_of (filter (\<lambda>e. 1 \<in> set (refs e)) (log w')) =
      [map (\<lambda>key. (map_option A (map_of (performance_frame seed gauss) ''Date''),
                  map_option A (map_of (performance_frame seed gauss) key)))
          [''Our_Algorithm'', ''Bank_Nifty'', ''Nifty_Index'', ''Mutual_Funds'']]"
    by (simp add: summary_def comp_def)
  show ?thesis
    using create_performance_chart_frame [where a = a and w = w] by (simp add: run h0 r0 r1 del: One_nat_def)
qed

end
